theory Spec2Isabelle
  imports Main "HOL-Library.AList"
begin

section \<open>The pipeline parser of agent/pipeline_parser.go\<close>

text \<open>
  The parser turns the bytes of a pipeline definition into a string-keyed value tree.
  It decodes the bytes with a YAML codec, copies the string values of a top-level
  \<open>env\<close> block into the environment, substitutes environment variables in every
  string of the decoded tree, and re-encodes the tree into its final form.

  The YAML codec, the \<open>yamltojson\<close> decoder, the template evaluator
  \<open>interpolate.Interpolate\<close> and the process environment are collaborators from
  other packages. They are parameters of the model: the theorems hold for all of
  them, and the examples fix one choice. A Go \<open>error\<close> is modelled by its message.
\<close>

subsection \<open>Data\<close>

type_synonym bytes = string

text \<open>
  Modelled from the spec: \<open>env.Environment\<close> is declared in another package of the
  repository. The spec describes it as a string-to-string mapping with unique keys in
  which \<open>Set\<close> overwrites; the parser holds a pointer to it, so the model threads its
  state through every function that can call \<open>Set\<close>.
\<close>

type_synonym env = "string \<rightharpoonup> string"

definition Env_Set :: "string \<Rightarrow> string \<Rightarrow> env \<Rightarrow> env" where
  "Env_Set k v e = e(k \<mapsto> v)"

type_synonym evaluator = "env \<Rightarrow> string \<Rightarrow> string + string"

text \<open>
  The key type of a Go map value. \<open>reflect.Value.MapKeys\<close> returns values of the
  static key type of the map, so the \<open>Kind\<close> of a key is \<open>reflect.Interface\<close> for a
  \<open>map[interface{}]interface{}\<close> (whatever the key holds) and \<open>reflect.String\<close>
  for a \<open>map[string]interface{}\<close>.
\<close>

datatype keytype = KeyInterface | KeyString

text \<open>
  The values the tree walk meets, each named after its Go type. A value held in an
  \<open>interface{}\<close> is one of: nil, a string, another scalar (an integer, which the
  decoder holds as an \<open>int\<close> and from \<open>2^63\<close> on as a \<open>uint64\<close>, a \<open>bool\<close>, a
  \<open>float64\<close>; a float is kept by its \<open>%v\<close> rendering, the parser never computes
  with it), a \<open>[]interface{}\<close>, a \<open>yaml.MapSlice\<close> (a slice of
  \<open>yaml.MapItem{Key, Value interface{}}\<close> structs, which keeps the order and the
  duplicates of the document) or a Go map. A Go map is given by its key type and its
  entries in the order \<open>MapKeys\<close> returns them.
\<close>

datatype node =
    GoNil
  | GoString string
  | GoInt int
  | GoBool bool
  | GoFloat string
  | Slice "node list"
  | MapSlice "(node \<times> node) list"
  | GoMap keytype "(node \<times> node) list"

record parser =
  Env :: "env option"
  Filename :: string
  Pipeline :: bytes
  NoInterpolation :: bool

text \<open>
  The collaborators: \<open>yaml.Unmarshal\<close> into a \<open>[]interface{}\<close> and into a
  \<open>yaml.MapSlice\<close>, \<open>yaml.Marshal\<close>, \<open>yamltojson.UnmarshalAsStringMap\<close> (whose
  result may be nil), \<open>interpolate.Interpolate\<close> and
  \<open>env.FromSlice(os.Environ())\<close>.
\<close>

record 'r collaborators =
  yaml_Unmarshal_slice :: "bytes \<Rightarrow> string + node list"
  yaml_Unmarshal_MapSlice :: "bytes \<Rightarrow> string + (node \<times> node) list"
  yaml_Marshal :: "node \<Rightarrow> string + bytes"
  UnmarshalAsStringMap :: "bytes \<Rightarrow> string + 'r option"
  Interpolate :: evaluator
  os_Environ :: env

subsection \<open>Formatting\<close>

definition digit :: "nat \<Rightarrow> char" where
  "digit n = ''0123456789'' ! n"

fun digits :: "nat \<Rightarrow> string" where
  "digits n = (if n < 10 then [digit n] else digits (n div 10) @ [digit (n mod 10)])"

declare digits.simps [simp del]

definition show_int :: "int \<Rightarrow> string" where
  "show_int i = (if i < 0 then CHR ''-'' # digits (nat (- i)) else digits (nat i))"

fun join_space :: "string list \<Rightarrow> string" where
  "join_space [] = []"
| "join_space [s] = s"
| "join_space (s # t # ss) = s @ '' '' @ join_space (t # ss)"

text \<open>The verb \<open>%T\<close> of package \<open>fmt\<close>: the Go type of a value.\<close>

fun fmt_T :: "node \<Rightarrow> string" where
  "fmt_T GoNil = ''<nil>''"
| "fmt_T (GoString s) = ''string''"
| "fmt_T (GoInt i) = (if 9223372036854775808 \<le> i then ''uint64'' else ''int'')"
| "fmt_T (GoBool b) = ''bool''"
| "fmt_T (GoFloat f) = ''float64''"
| "fmt_T (Slice xs) = ''[]interface {}''"
| "fmt_T (MapSlice items) = ''yaml.MapSlice''"
| "fmt_T (GoMap KeyInterface m) = ''map[interface {}]interface {}''"
| "fmt_T (GoMap KeyString m) = ''map[string]interface {}''"

text \<open>The verb \<open>%v\<close>: the default rendering of a value.\<close>

primrec fmt_v :: "node \<Rightarrow> string" where
  "fmt_v GoNil = ''<nil>''"
| "fmt_v (GoString s) = s"
| "fmt_v (GoInt i) = show_int i"
| "fmt_v (GoBool b) = (if b then ''true'' else ''false'')"
| "fmt_v (GoFloat f) = f"
| "fmt_v (Slice xs) = ''['' @ join_space (map fmt_v xs) @ '']''"
| "fmt_v (MapSlice items) =
     ''['' @ join_space (map (\<lambda>kv. ''{'' @ fst kv @ '' '' @ snd kv @ ''}'')
                            (map (map_prod fmt_v fmt_v) items)) @ '']''"
| "fmt_v (GoMap kt m) =
     ''map['' @ join_space (map (\<lambda>kv. fst kv @ '':'' @ snd kv)
                               (map (map_prod fmt_v fmt_v) m)) @ '']''"

text \<open>\<open>strings.TrimPrefix\<close> and \<open>formatYAMLError\<close>.\<close>

definition TrimPrefix :: "string \<Rightarrow> string \<Rightarrow> string" where
  "TrimPrefix s pre = (if take (length pre) s = pre then drop (length pre) s else s)"

definition formatYAMLError :: "string \<Rightarrow> string" where
  "formatYAMLError err = TrimPrefix err ''yaml: ''"

text \<open>\<open>strings.Contains\<close>: \<open>sub\<close> occurs in \<open>s\<close>.\<close>

primrec contains :: "string \<Rightarrow> string \<Rightarrow> bool" where
  "contains [] sub = (sub = [])"
| "contains (c # cs) sub = (take (length sub) (c # cs) = sub \<or> contains cs sub)"

subsection \<open>The tree walk\<close>

text \<open>
  \<open>interpolateRecursive\<close> switches on the \<open>Kind\<close> of the original value. The
  \<open>Interface\<close> case unwraps the value and leaves a nil untouched, the \<open>String\<close> case
  calls the evaluator, the \<open>Slice\<close> case walks the elements from index 0, the
  \<open>Struct\<close> case (the \<open>yaml.MapItem\<close>s of a \<open>yaml.MapSlice\<close>) walks the fields
  \<open>Key\<close> and \<open>Value\<close> in this order, the \<open>Map\<close> case walks each value, then
  interpolates the key when its \<open>Kind\<close> is \<open>String\<close>, and stores the pair in a fresh
  map with \<open>SetMapIndex\<close>; every other kind is copied. Each loop returns at the first
  error. No pointer occurs in a decoded tree, so the \<open>Ptr\<close> case has no counterpart.
\<close>

primrec interpolateRecursive :: "evaluator \<Rightarrow> env \<Rightarrow> node \<Rightarrow> string + node"
  and interpolateSlice :: "evaluator \<Rightarrow> env \<Rightarrow> node list \<Rightarrow> string + node list"
  and interpolateMapSlice ::
    "evaluator \<Rightarrow> env \<Rightarrow> (node \<times> node) list \<Rightarrow> string + (node \<times> node) list"
  and interpolateStruct :: "evaluator \<Rightarrow> env \<Rightarrow> node \<times> node \<Rightarrow> string + (node \<times> node)"
  and interpolateMap ::
    "evaluator \<Rightarrow> env \<Rightarrow> keytype \<Rightarrow> (node \<times> node) list \<Rightarrow> (node \<times> node) list
       \<Rightarrow> string + (node \<times> node) list"
  and interpolateMapEntry ::
    "evaluator \<Rightarrow> env \<Rightarrow> keytype \<Rightarrow> node \<times> node \<Rightarrow> string + (node \<times> node)"
where
  "interpolateRecursive I e GoNil = Inr GoNil"
| "interpolateRecursive I e (GoString s) =
     (case I e s of Inl err \<Rightarrow> Inl err | Inr interpolated \<Rightarrow> Inr (GoString interpolated))"
| "interpolateRecursive I e (GoInt i) = Inr (GoInt i)"
| "interpolateRecursive I e (GoBool b) = Inr (GoBool b)"
| "interpolateRecursive I e (GoFloat f) = Inr (GoFloat f)"
| "interpolateRecursive I e (Slice xs) =
     (case interpolateSlice I e xs of Inl err \<Rightarrow> Inl err | Inr ys \<Rightarrow> Inr (Slice ys))"
| "interpolateRecursive I e (MapSlice items) =
     (case interpolateMapSlice I e items of
        Inl err \<Rightarrow> Inl err
      | Inr out \<Rightarrow> Inr (MapSlice out))"
| "interpolateRecursive I e (GoMap kt m) =
     (case interpolateMap I e kt m [] of Inl err \<Rightarrow> Inl err | Inr out \<Rightarrow> Inr (GoMap kt out))"
| "interpolateSlice I e [] = Inr []"
| "interpolateSlice I e (x # xs) =
     (case interpolateRecursive I e x of
        Inl err \<Rightarrow> Inl err
      | Inr y \<Rightarrow>
          (case interpolateSlice I e xs of Inl err \<Rightarrow> Inl err | Inr ys \<Rightarrow> Inr (y # ys)))"
| "interpolateMapSlice I e [] = Inr []"
| "interpolateMapSlice I e (item # items) =
     (case interpolateStruct I e item of
        Inl err \<Rightarrow> Inl err
      | Inr item' \<Rightarrow>
          (case interpolateMapSlice I e items of
             Inl err \<Rightarrow> Inl err
           | Inr out \<Rightarrow> Inr (item' # out)))"
| "interpolateStruct I e (k, v) =
     (case interpolateRecursive I e k of
        Inl err \<Rightarrow> Inl err
      | Inr k' \<Rightarrow>
          (case interpolateRecursive I e v of Inl err \<Rightarrow> Inl err | Inr v' \<Rightarrow> Inr (k', v')))"
| "interpolateMap I e kt [] copy = Inr copy"
| "interpolateMap I e kt (entry # rest) copy =
     (case interpolateMapEntry I e kt entry of
        Inl err \<Rightarrow> Inl err
      | Inr (key', copyValue) \<Rightarrow> interpolateMap I e kt rest (AList.update key' copyValue copy))"
| "interpolateMapEntry I e kt (key, originalValue) =
     (case interpolateRecursive I e originalValue of
        Inl err \<Rightarrow> Inl err
      | Inr copyValue \<Rightarrow>
          (case (kt, key) of
             (KeyString, GoString s) \<Rightarrow>
               (case I e s of
                  Inl err \<Rightarrow> Inl err
                | Inr interpolatedKey \<Rightarrow> Inr (GoString interpolatedKey, copyValue))
           | _ \<Rightarrow> Inr (key, copyValue)))"

text \<open>\<open>interpolate\<close>: nothing to do for a nil object, otherwise the walk.\<close>

definition interpolate :: "evaluator \<Rightarrow> env \<Rightarrow> node \<Rightarrow> string + node" where
  "interpolate I e obj = (if obj = GoNil then Inr GoNil else interpolateRecursive I e obj)"

subsection \<open>The env block\<close>

text \<open>\<open>mapSliceItem\<close>: the first item whose key is the string \<open>key\<close>.\<close>

primrec mapSliceItem :: "string \<Rightarrow> (node \<times> node) list \<Rightarrow> (node \<times> node) option" where
  "mapSliceItem key [] = None"
| "mapSliceItem key (item # s) =
     (case fst item of
        GoString k \<Rightarrow> (if k = key then Some item else mapSliceItem key s)
      | _ \<Rightarrow> mapSliceItem key s)"

text \<open>
  \<open>interpolateEnvBlock\<close> returns its error, if any, and the state in which it leaves
  the environment: what it has set before an error stays set.
\<close>

primrec interpolateEnvBlock ::
  "evaluator \<Rightarrow> (node \<times> node) list \<Rightarrow> env \<Rightarrow> string option \<times> env" where
  "interpolateEnvBlock I [] e = (None, e)"
| "interpolateEnvBlock I (item # envMap) e =
     (case fst item of
        GoString k \<Rightarrow>
          (case snd item of
             GoString tv \<Rightarrow>
               (case I e tv of
                  Inl err \<Rightarrow> (Some err, e)
                | Inr interpolated \<Rightarrow> interpolateEnvBlock I envMap (Env_Set k interpolated e))
           | _ \<Rightarrow> interpolateEnvBlock I envMap e)
      | _ \<Rightarrow>
          (Some (''Unexpected type of '' @ fmt_T (fst item) @ '' for env block key ''
                   @ fmt_v (fst item)), e))"

text \<open>
  \<open>parseWithEnv\<close>. The message of the last branch formats \<open>item\<close>, a
  \<open>yaml.MapItem\<close>, with \<open>%T\<close>.
\<close>

definition parseWithEnv :: "'r collaborators \<Rightarrow> env \<Rightarrow> bytes \<Rightarrow> (string + node) \<times> env" where
  "parseWithEnv c e b =
     (case yaml_Unmarshal_MapSlice c b of
        Inl err \<Rightarrow> (Inl err, e)
      | Inr pipeline \<Rightarrow>
          (case mapSliceItem ''env'' pipeline of
             None \<Rightarrow> (Inr (MapSlice pipeline), e)
           | Some item \<Rightarrow>
               (case snd item of
                  MapSlice envMap \<Rightarrow>
                    (case interpolateEnvBlock (Interpolate c) envMap e of
                       (Some err, e') \<Rightarrow> (Inl err, e')
                     | (None, e') \<Rightarrow> (Inr (MapSlice pipeline), e'))
                | _ \<Rightarrow>
                    (Inl (''Expected pipeline top-level env block to be a map, got ''
                            @ ''yaml.MapItem''), e))))"

subsection \<open>Parse\<close>

text \<open>
  \<open>Parse\<close> returns a Go pair, the result (nil is \<open>None\<close>) and the error (nil is
  \<open>None\<close>), together with the final state of the environment \<open>p.Env\<close> points to
  (the one built from the process environment when \<open>p.Env\<close> is nil).
\<close>

definition errPrefix :: "parser \<Rightarrow> string" where
  "errPrefix p =
     (if Filename p = [] then ''Failed to parse pipeline''
      else ''Failed to parse '' @ Filename p)"

text \<open>
  The first half of \<open>Parse\<close>: the document is decoded as a sequence and, when that
  fails, as an ordered map by \<open>parseWithEnv\<close>.
\<close>

definition decodePipeline :: "'r collaborators \<Rightarrow> env \<Rightarrow> bytes \<Rightarrow> (string + node) \<times> env" where
  "decodePipeline c e b =
     (case yaml_Unmarshal_slice c b of
        Inr pipelineAsSlice \<Rightarrow> (Inr (Slice pipelineAsSlice), e)
      | Inl err \<Rightarrow> parseWithEnv c e b)"

text \<open>The second half of \<open>Parse\<close>: the walk, \<open>yaml.Marshal\<close> and the final decoding.\<close>

definition interpolateAndNormalize ::
  "'r collaborators \<Rightarrow> parser \<Rightarrow> node \<Rightarrow> env \<Rightarrow> ('r option \<times> string option) \<times> env" where
  "interpolateAndNormalize c p pipeline e =
     (case interpolate (Interpolate c) e pipeline of
        Inl err \<Rightarrow> ((None, Some err), e)
      | Inr interpolated \<Rightarrow>
          (case yaml_Marshal c interpolated of
             Inl err \<Rightarrow> ((None, Some err), e)
           | Inr b \<Rightarrow>
               (case UnmarshalAsStringMap c b of
                  Inl err \<Rightarrow> ((None, Some (errPrefix p @ '': '' @ formatYAMLError err)), e)
                | Inr result \<Rightarrow> ((result, None), e))))"

definition initialEnv :: "'r collaborators \<Rightarrow> parser \<Rightarrow> env" where
  "initialEnv c p = (case Env p of None \<Rightarrow> os_Environ c | Some given \<Rightarrow> given)"

definition Parse :: "'r collaborators \<Rightarrow> parser \<Rightarrow> ('r option \<times> string option) \<times> env" where
  "Parse c p =
     (if NoInterpolation p then
        (case UnmarshalAsStringMap c (Pipeline p) of
           Inl err \<Rightarrow>
             ((None, Some (errPrefix p @ '': '' @ formatYAMLError err)), initialEnv c p)
         | Inr result \<Rightarrow> ((result, None), initialEnv c p))
      else
        (case decodePipeline c (initialEnv c p) (Pipeline p) of
           (Inl err, e) \<Rightarrow> ((None, Some (errPrefix p @ '': '' @ formatYAMLError err)), e)
         | (Inr pipeline, e) \<Rightarrow> interpolateAndNormalize c p pipeline e))"

subsection \<open>Shapes\<close>

text \<open>
  The shape of a tree: the tree with every string, key or value, replaced by the empty
  string. Two trees of the same shape have the same variant at every node, sequences of
  the same length, mappings with the same number of entries in the same order, and the
  same non-string scalars.
\<close>

primrec skeleton :: "node \<Rightarrow> node" where
  "skeleton GoNil = GoNil"
| "skeleton (GoString s) = GoString []"
| "skeleton (GoInt i) = GoInt i"
| "skeleton (GoBool b) = GoBool b"
| "skeleton (GoFloat f) = GoFloat f"
| "skeleton (Slice xs) = Slice (map skeleton xs)"
| "skeleton (MapSlice items) = MapSlice (map (map_prod skeleton skeleton) items)"
| "skeleton (GoMap kt m) = GoMap kt (map (map_prod skeleton skeleton) m)"

text \<open>The number of entries of every mapping of a tree, keys included, in preorder.\<close>

primrec mappingSizes :: "node \<Rightarrow> nat list" where
  "mappingSizes GoNil = []"
| "mappingSizes (GoString s) = []"
| "mappingSizes (GoInt i) = []"
| "mappingSizes (GoBool b) = []"
| "mappingSizes (GoFloat f) = []"
| "mappingSizes (Slice xs) = concat (map mappingSizes xs)"
| "mappingSizes (MapSlice items) =
     length items # concat (map (\<lambda>kv. fst kv @ snd kv)
                               (map (map_prod mappingSizes mappingSizes) items))"
| "mappingSizes (GoMap kt m) =
     length m # concat (map (\<lambda>kv. fst kv @ snd kv)
                           (map (map_prod mappingSizes mappingSizes) m))"

text \<open>
  The trees \<open>yaml.Unmarshal\<close> builds: decoding into a \<open>[]interface{}\<close> makes every
  mapping a \<open>map[interface{}]interface{}\<close>, decoding into a \<open>yaml.MapSlice\<close> makes
  every mapping a \<open>yaml.MapSlice\<close>; no string-keyed Go map occurs, and the keys of
  a Go map are pairwise distinct.
\<close>

primrec decoded :: "node \<Rightarrow> bool" where
  "decoded GoNil = True"
| "decoded (GoString s) = True"
| "decoded (GoInt i) = True"
| "decoded (GoBool b) = True"
| "decoded (GoFloat f) = True"
| "decoded (Slice xs) = list_all decoded xs"
| "decoded (MapSlice items) = list_all (pred_prod decoded decoded) items"
| "decoded (GoMap kt m) =
     (kt = KeyInterface \<and> distinct (map fst m) \<and> list_all (pred_prod decoded decoded) m)"

subsection \<open>Collaborators for the examples\<close>

text \<open>
  An evaluator for the examples, with two forms of \<open>interpolate.Interpolate\<close>: a
  string \<open>${NAME}\<close> is the value of \<open>NAME\<close>, the empty string when \<open>NAME\<close> is
  unset; a string \<open>${NAME?}\<close> is the value of \<open>NAME\<close>, an error when \<open>NAME\<close> is
  unset; any other string is returned as it is.
\<close>

definition exampleEvaluator :: evaluator where
  "exampleEvaluator e s =
     (if take 2 s = ''${'' \<and> drop (length s - 1) s = ''}'' then
        (if drop (length s - 2) s = ''?}'' then
           (case e (take (length s - 4) (drop 2 s)) of
              None \<Rightarrow> Inl (''$'' @ take (length s - 4) (drop 2 s) @ '': not set'')
            | Some v \<Rightarrow> Inr v)
         else
           (case e (take (length s - 3) (drop 2 s)) of
              None \<Rightarrow> Inr []
            | Some v \<Rightarrow> Inr v))
      else Inr s)"

text \<open>
  A codec for one document: \<open>asSlice\<close> and \<open>asMap\<close> are what the two decoders
  return for it; \<open>yaml.Marshal\<close> renders with \<open>%v\<close> and the final decoder returns
  the bytes it is given. \<open>newline\<close> separates the lines of a document.
\<close>

definition newline :: string where
  "newline = [CHR 0x0A]"

definition exampleCollaborators ::
  "string + node list \<Rightarrow> string + (node \<times> node) list \<Rightarrow> bytes collaborators" where
  "exampleCollaborators asSlice asMap =
     \<lparr>yaml_Unmarshal_slice = (\<lambda>b. asSlice),
      yaml_Unmarshal_MapSlice = (\<lambda>b. asMap),
      yaml_Marshal = (\<lambda>t. Inr (fmt_v t)),
      UnmarshalAsStringMap = (\<lambda>b. Inr (Some b)),
      Interpolate = exampleEvaluator,
      os_Environ = Map.empty\<rparr>"


section \<open>Properties\<close>

subsection \<open>Loops\<close>

lemma update_fresh: "k \<notin> fst ` set al \<Longrightarrow> AList.update k v al = al @ [(k, v)]"
  by (induction al) auto


lemma interpolateEnvBlock_append:
  "interpolateEnvBlock I (es1 @ es2) e =
     (case interpolateEnvBlock I es1 e of
        (None, e1) \<Rightarrow> interpolateEnvBlock I es2 e1
      | (Some err, e1) \<Rightarrow> (Some err, e1))"
  by (induction es1 arbitrary: e) (auto split: node.splits sum.splits)

lemma mappingSizes_skeleton: "mappingSizes (skeleton t) = mappingSizes t"
proof (induction t)
  case (Slice xs)
  then have eq: "map (mappingSizes \<circ> skeleton) xs = map mappingSizes xs" by simp
  show ?case by (simp add: eq)
next
  case (MapSlice items)
  have eq: "map ((\<lambda>kv. fst kv @ snd kv) \<circ> (map_prod mappingSizes mappingSizes
              \<circ> map_prod skeleton skeleton)) items
        = map ((\<lambda>kv. fst kv @ snd kv) \<circ> map_prod mappingSizes mappingSizes) items"
  proof (rule map_cong [OF refl])
    fix kv assume mem: "kv \<in> set items"
    obtain a b where kv: "kv = (a, b)" by (cases kv)
    have "mappingSizes (skeleton a) = mappingSizes a"
      using MapSlice.IH(1) [OF mem, of a] kv by simp
    moreover have "mappingSizes (skeleton b) = mappingSizes b"
      using MapSlice.IH(2) [OF mem, of b] kv by simp
    ultimately show "((\<lambda>kv. fst kv @ snd kv) \<circ> (map_prod mappingSizes mappingSizes
              \<circ> map_prod skeleton skeleton)) kv
        = ((\<lambda>kv. fst kv @ snd kv) \<circ> map_prod mappingSizes mappingSizes) kv"
      using kv by simp
  qed
  show ?case by (simp add: eq)
next
  case (GoMap kt m)
  have eq: "map ((\<lambda>kv. fst kv @ snd kv) \<circ> (map_prod mappingSizes mappingSizes
              \<circ> map_prod skeleton skeleton)) m
        = map ((\<lambda>kv. fst kv @ snd kv) \<circ> map_prod mappingSizes mappingSizes) m"
  proof (rule map_cong [OF refl])
    fix kv assume mem: "kv \<in> set m"
    obtain a b where kv: "kv = (a, b)" by (cases kv)
    have "mappingSizes (skeleton a) = mappingSizes a"
      using GoMap.IH(1) [OF mem, of a] kv by simp
    moreover have "mappingSizes (skeleton b) = mappingSizes b"
      using GoMap.IH(2) [OF mem, of b] kv by simp
    ultimately show "((\<lambda>kv. fst kv @ snd kv) \<circ> (map_prod mappingSizes mappingSizes
              \<circ> map_prod skeleton skeleton)) kv
        = ((\<lambda>kv. fst kv @ snd kv) \<circ> map_prod mappingSizes mappingSizes) kv"
      using kv by simp
  qed
  show ?case by (simp add: eq)
qed simp_all

lemma interpolateEnvBlock_untouched:
  "\<forall>tv. (GoString k, GoString tv) \<notin> set es \<Longrightarrow> interpolateEnvBlock I es e = (r, e')
     \<Longrightarrow> e' k = e k"
proof (induction es arbitrary: e)
  case Nil
  then show ?case by simp
next
  case (Cons item es)
  obtain key v where item: "item = (key, v)" by (cases item)
  have rest: "\<forall>tv. (GoString k, GoString tv) \<notin> set es" using Cons.prems(1) by simp
  show ?case
  proof (cases key)
    case (GoString k')
    show ?thesis
    proof (cases v)
      case (GoString tv)
      have neq: "k' \<noteq> k" using Cons.prems(1) item \<open>key = GoString k'\<close> GoString by auto
      show ?thesis
      proof (cases "I e tv")
        case (Inl err)
        then show ?thesis using Cons.prems(2) item \<open>key = GoString k'\<close> GoString by simp
      next
        case (Inr w)
        then have "interpolateEnvBlock I es (Env_Set k' w e) = (r, e')"
          using Cons.prems(2) item \<open>key = GoString k'\<close> GoString by simp
        from Cons.IH [OF rest this] show ?thesis using neq by (simp add: Env_Set_def)
      qed
    qed (use Cons.prems(2) Cons.IH [OF rest] item GoString in simp_all)
  qed (use Cons.prems(2) item in simp_all)
qed

subsection \<open>The walk keeps the shape\<close>

lemma interpolateSlice_skeleton:
  assumes "\<And>x x'. x \<in> set xs \<Longrightarrow> interpolateRecursive I e x = Inr x' \<Longrightarrow> skeleton x' = skeleton x"
    and "interpolateSlice I e xs = Inr ys"
  shows "map skeleton ys = map skeleton xs"
  using assms
proof (induction xs arbitrary: ys)
  case Nil
  then show ?case by simp
next
  case (Cons x xs)
  from Cons.prems(2) obtain y ys' where
    y: "interpolateRecursive I e x = Inr y" and ys': "interpolateSlice I e xs = Inr ys'"
    and eq: "ys = y # ys'"
    by (auto split: sum.splits)
  have "skeleton y = skeleton x" using Cons.prems(1) y by simp
  moreover have "map skeleton ys' = map skeleton xs"
    using Cons.IH Cons.prems(1) ys' by simp
  ultimately show ?case using eq by simp
qed

lemma interpolateMapSlice_skeleton:
  assumes "\<And>k v x'. (k, v) \<in> set items \<Longrightarrow> interpolateRecursive I e k = Inr x' \<Longrightarrow> skeleton x' = skeleton k"
    and "\<And>k v x'. (k, v) \<in> set items \<Longrightarrow> interpolateRecursive I e v = Inr x' \<Longrightarrow> skeleton x' = skeleton v"
    and "interpolateMapSlice I e items = Inr out"
  shows "map (map_prod skeleton skeleton) out = map (map_prod skeleton skeleton) items"
  using assms
proof (induction items arbitrary: out)
  case Nil
  then show ?case by simp
next
  case (Cons item items)
  obtain k v where item: "item = (k, v)" by (cases item)
  from Cons.prems(3) item obtain k' v' out' where
    k': "interpolateRecursive I e k = Inr k'" and v': "interpolateRecursive I e v = Inr v'"
    and out': "interpolateMapSlice I e items = Inr out'" and eq: "out = (k', v') # out'"
    by (auto split: sum.splits)
  have "skeleton k' = skeleton k" using Cons.prems(1) [of k v k'] k' item by simp
  moreover have "skeleton v' = skeleton v" using Cons.prems(2) [of k v v'] v' item by simp
  moreover have "map (map_prod skeleton skeleton) out' = map (map_prod skeleton skeleton) items"
    using Cons.IH [OF _ _ out'] Cons.prems(1,2) by (meson list.set_intros(2))
  ultimately show ?case using eq item by simp
qed

text \<open>
  In a map with interface keys no key is interpolated, so the keys stay distinct and
  every \<open>SetMapIndex\<close> adds an entry.
\<close>

lemma interpolateMap_skeleton:
  assumes "\<And>k v x'. (k, v) \<in> set m \<Longrightarrow> interpolateRecursive I e v = Inr x' \<Longrightarrow> skeleton x' = skeleton v"
    and "distinct (map fst m)"
    and "fst ` set copy \<inter> fst ` set m = {}"
    and "interpolateMap I e KeyInterface m copy = Inr out"
  shows "\<exists>new. out = copy @ new \<and> map fst new = map fst m
           \<and> map (skeleton \<circ> snd) new = map (skeleton \<circ> snd) m"
  using assms
proof (induction m arbitrary: copy out)
  case Nil
  then show ?case by simp
next
  case (Cons entry m)
  obtain k v where entry: "entry = (k, v)" by (cases entry)
  from Cons.prems(4) entry obtain v' where
    v': "interpolateRecursive I e v = Inr v'"
    and rest: "interpolateMap I e KeyInterface m (AList.update k v' copy) = Inr out"
    by (auto split: sum.splits)
  have fresh: "k \<notin> fst ` set copy" using Cons.prems(3) entry by auto
  then have upd: "AList.update k v' copy = copy @ [(k, v')]" by (rule update_fresh)
  have sk: "skeleton v' = skeleton v" using Cons.prems(1) [of k v v'] v' entry by simp
  have disj: "fst ` set (copy @ [(k, v')]) \<inter> fst ` set m = {}"
    using Cons.prems(2,3) entry by auto
  have "\<exists>new. out = (copy @ [(k, v')]) @ new \<and> map fst new = map fst m
           \<and> map (skeleton \<circ> snd) new = map (skeleton \<circ> snd) m"
  proof (rule Cons.IH)
    show "\<And>k v x'. (k, v) \<in> set m \<Longrightarrow> interpolateRecursive I e v = Inr x' \<Longrightarrow> skeleton x' = skeleton v"
      using Cons.prems(1) by (meson list.set_intros(2))
    show "distinct (map fst m)" using Cons.prems(2) by simp
    show "fst ` set (copy @ [(k, v')]) \<inter> fst ` set m = {}" by (rule disj)
    show "interpolateMap I e KeyInterface m (copy @ [(k, v')]) = Inr out"
      using rest upd by simp
  qed
  then obtain new where new: "out = (copy @ [(k, v')]) @ new" "map fst new = map fst m"
    "map (skeleton \<circ> snd) new = map (skeleton \<circ> snd) m" by blast
  show ?case
  proof (intro exI conjI)
    show "out = copy @ ((k, v') # new)" using new(1) by simp
    show "map fst ((k, v') # new) = map fst (entry # m)" using new(2) entry by simp
    show "map (skeleton \<circ> snd) ((k, v') # new) = map (skeleton \<circ> snd) (entry # m)"
      using new(3) entry sk by simp
  qed
qed

lemma interpolateRecursive_skeleton:
  "decoded t \<Longrightarrow> interpolateRecursive I e t = Inr t' \<Longrightarrow> skeleton t' = skeleton t"
proof (induction t arbitrary: t')
  case (Slice xs)
  from Slice.prems(2) obtain ys where ys: "interpolateSlice I e xs = Inr ys" and t': "t' = Slice ys"
    by (auto split: sum.splits)
  have "map skeleton ys = map skeleton xs"
  proof (rule interpolateSlice_skeleton [OF _ ys])
    fix x x' assume "x \<in> set xs" "interpolateRecursive I e x = Inr x'"
    then show "skeleton x' = skeleton x"
      using Slice.IH Slice.prems(1) by (simp add: list_all_iff)
  qed
  then show ?case using t' by simp
next
  case (MapSlice items)
  from MapSlice.prems(2) obtain out where out: "interpolateMapSlice I e items = Inr out"
    and t': "t' = MapSlice out"
    by (auto split: sum.splits)
  have "map (map_prod skeleton skeleton) out = map (map_prod skeleton skeleton) items"
  proof (rule interpolateMapSlice_skeleton [OF _ _ out])
    fix k v x' assume "(k, v) \<in> set items" "interpolateRecursive I e k = Inr x'"
    then show "skeleton x' = skeleton k"
      using MapSlice.IH(1) [of "(k, v)" k x'] MapSlice.prems(1) by (auto simp: list_all_iff)
  next
    fix k v x' assume "(k, v) \<in> set items" "interpolateRecursive I e v = Inr x'"
    then show "skeleton x' = skeleton v"
      using MapSlice.IH(2) [of "(k, v)" v x'] MapSlice.prems(1) by (auto simp: list_all_iff)
  qed
  then show ?case using t' by simp
next
  case (GoMap kt m)
  from GoMap.prems(1) have kt: "kt = KeyInterface" and dist: "distinct (map fst m)"
    and dec: "list_all (pred_prod decoded decoded) m" by simp_all
  from GoMap.prems(2) kt obtain out where out: "interpolateMap I e KeyInterface m [] = Inr out"
    and t': "t' = GoMap KeyInterface out"
    by (auto split: sum.splits)
  have "\<exists>new. out = [] @ new \<and> map fst new = map fst m
           \<and> map (skeleton \<circ> snd) new = map (skeleton \<circ> snd) m"
  proof (rule interpolateMap_skeleton [OF _ dist _ out])
    fix k v x' assume "(k, v) \<in> set m" "interpolateRecursive I e v = Inr x'"
    then show "skeleton x' = skeleton v"
      using GoMap.IH(2) [of "(k, v)" v x'] dec by (auto simp: list_all_iff)
  qed simp
  then have fst_eq: "map fst out = map fst m"
    and snd_eq: "map (skeleton \<circ> snd) out = map (skeleton \<circ> snd) m" by auto
  have "map (map_prod skeleton skeleton) out = map (map_prod skeleton skeleton) m"
  proof (rule nth_equalityI)
    show "length (map (map_prod skeleton skeleton) out) = length (map (map_prod skeleton skeleton) m)"
      using fst_eq by (metis length_map)
  next
    fix i assume "i < length (map (map_prod skeleton skeleton) out)"
    then have i: "i < length out" by simp
    then have i': "i < length m" using fst_eq by (metis length_map)
    have "fst (out ! i) = fst (m ! i)" using fst_eq i i' by (metis nth_map)
    moreover have "skeleton (snd (out ! i)) = skeleton (snd (m ! i))"
      using snd_eq i i' by (metis comp_apply nth_map)
    ultimately show "map (map_prod skeleton skeleton) out ! i = map (map_prod skeleton skeleton) m ! i"
      using i i' by (cases "out ! i"; cases "m ! i") simp
  qed
  then show ?case using t' kt by simp
qed (auto split: sum.splits)

text \<open>
  The hypothesis on the key type matters: in a \<open>map[string]interface{}\<close> the keys are
  interpolated, and two keys that become equal share one entry of the copy.
\<close>

lemma string_keyed_map_loses_entry:
  "interpolateRecursive exampleEvaluator [''A'' \<mapsto> ''x'', ''B'' \<mapsto> ''x'']
      (GoMap KeyString [(GoString ''${A}'', GoInt 1), (GoString ''${B}'', GoInt 2)])
    = Inr (GoMap KeyString [(GoString ''x'', GoInt 2)])"
  by (simp add: exampleEvaluator_def)

text \<open>
  In a \<open>map[interface{}]interface{}\<close>, the mappings of a document decoded as a
  sequence, the values are interpolated and the keys are not.
\<close>

lemma interface_keyed_map_keeps_keys:
  "interpolateRecursive exampleEvaluator [''A'' \<mapsto> ''x'']
      (Slice [GoMap KeyInterface [(GoString ''${A}'', GoString ''${A}'')]])
    = Inr (Slice [GoMap KeyInterface [(GoString ''${A}'', GoString ''x'')]])"
  by (simp add: exampleEvaluator_def)

subsection \<open>Claims\<close>

text \<open>
  Claim C1. For every decoded document, the tree the walk returns has the shape of its
  source: the same variant at every node, the same sequence lengths, the same entries in
  the same order in every mapping; only strings, values or keys, may differ. In
  particular every mapping keeps its number of entries, also when two of its string keys
  interpolate to the same string.
\<close>

theorem interpolate_preserves_shape:
  assumes "decoded t" and "interpolate I e t = Inr t'"
  shows "skeleton t' = skeleton t \<and> mappingSizes t' = mappingSizes t"
proof -
  have sk: "skeleton t' = skeleton t"
  proof (cases "t = GoNil")
    case True
    then show ?thesis using assms(2) by (simp add: interpolate_def)
  next
    case False
    then have "interpolateRecursive I e t = Inr t'" using assms(2) by (simp add: interpolate_def)
    then show ?thesis by (rule interpolateRecursive_skeleton [OF assms(1)])
  qed
  have "mappingSizes t' = mappingSizes (skeleton t')" by (simp add: mappingSizes_skeleton)
  also have "\<dots> = mappingSizes t" by (simp add: sk mappingSizes_skeleton)
  finally show ?thesis using sk by simp
qed

theorem interpolate_preserves_shape_witness:
  "decoded (MapSlice [(GoString ''${A}'', GoInt 1), (GoString ''${B}'', Slice [GoString ''${A}''])])
   \<and> interpolate exampleEvaluator [''A'' \<mapsto> ''x'', ''B'' \<mapsto> ''x'']
        (MapSlice [(GoString ''${A}'', GoInt 1), (GoString ''${B}'', Slice [GoString ''${A}''])])
      = Inr (MapSlice [(GoString ''x'', GoInt 1), (GoString ''x'', Slice [GoString ''x''])])
   \<and> skeleton (MapSlice [(GoString ''x'', GoInt 1), (GoString ''x'', Slice [GoString ''x''])])
      = skeleton (MapSlice [(GoString ''${A}'', GoInt 1), (GoString ''${B}'', Slice [GoString ''${A}''])])
   \<and> mappingSizes (MapSlice [(GoString ''x'', GoInt 1), (GoString ''x'', Slice [GoString ''x''])])
      = [2]"
proof -
  have d: "decoded (MapSlice [(GoString ''${A}'', GoInt 1), (GoString ''${B}'', Slice [GoString ''${A}''])])"
    by simp
  have i: "interpolate exampleEvaluator [''A'' \<mapsto> ''x'', ''B'' \<mapsto> ''x'']
        (MapSlice [(GoString ''${A}'', GoInt 1), (GoString ''${B}'', Slice [GoString ''${A}''])])
      = Inr (MapSlice [(GoString ''x'', GoInt 1), (GoString ''x'', Slice [GoString ''x''])])"
    by (simp add: interpolate_def exampleEvaluator_def)
  show ?thesis using d i interpolate_preserves_shape [OF d i] by simp
qed


text \<open>
  Claim C2. The entries of an env block are processed in declaration order, and each
  string value is interpolated against the environment as the earlier entries of the
  block have left it, before \<open>Set\<close> stores it: in a block \<open>[(k1, v1), (k2, v2)]\<close>
  the value of \<open>k2\<close> is evaluated in the environment that already holds \<open>k1\<close>. An
  entry whose value is not a string sets nothing, and a key that is not a string is an
  error, which fails the parse.
\<close>

theorem interpolateEnvBlock_sequential:
  "(I e v1 = Inr w1 \<longrightarrow> I (Env_Set k1 w1 e) v2 = Inr w2 \<longrightarrow>
      interpolateEnvBlock I [(GoString k1, GoString v1), (GoString k2, GoString v2)] e
        = (None, Env_Set k2 w2 (Env_Set k1 w1 e)))
   \<and> interpolateEnvBlock I (es1 @ es2) e =
       (case interpolateEnvBlock I es1 e of
          (None, e1) \<Rightarrow> interpolateEnvBlock I es2 e1
        | (Some err, e1) \<Rightarrow> (Some err, e1))
   \<and> ((\<forall>s. v \<noteq> GoString s) \<longrightarrow>
        interpolateEnvBlock I ((GoString k, v) # es) e = interpolateEnvBlock I es e)
   \<and> ((\<forall>s. key \<noteq> GoString s) \<longrightarrow>
        interpolateEnvBlock I ((key, v) # es) e =
          (Some (''Unexpected type of '' @ fmt_T key @ '' for env block key '' @ fmt_v key), e))
   \<and> (\<not> NoInterpolation p \<longrightarrow>
        yaml_Unmarshal_slice c (Pipeline p) = Inl err1 \<longrightarrow>
        yaml_Unmarshal_MapSlice c (Pipeline p) = Inr pipeline \<longrightarrow>
        mapSliceItem ''env'' pipeline = Some (envKey, MapSlice envMap) \<longrightarrow>
        interpolateEnvBlock (Interpolate c) envMap (initialEnv c p) = (Some err, e') \<longrightarrow>
        Parse c p = ((None, Some (errPrefix p @ '': '' @ formatYAMLError err)), e'))"
proof (intro conjI impI)
  show "interpolateEnvBlock I (es1 @ es2) e =
       (case interpolateEnvBlock I es1 e of
          (None, e1) \<Rightarrow> interpolateEnvBlock I es2 e1
        | (Some err, e1) \<Rightarrow> (Some err, e1))"
    by (rule interpolateEnvBlock_append)
next
  assume "\<forall>s. v \<noteq> GoString s"
  then show "interpolateEnvBlock I ((GoString k, v) # es) e = interpolateEnvBlock I es e"
    by (cases v) simp_all
next
  assume "\<forall>s. key \<noteq> GoString s"
  then show "interpolateEnvBlock I ((key, v) # es) e =
          (Some (''Unexpected type of '' @ fmt_T key @ '' for env block key '' @ fmt_v key), e)"
    by (cases key) simp_all
next
  assume "\<not> NoInterpolation p" "yaml_Unmarshal_slice c (Pipeline p) = Inl err1"
    "yaml_Unmarshal_MapSlice c (Pipeline p) = Inr pipeline"
    "mapSliceItem ''env'' pipeline = Some (envKey, MapSlice envMap)"
    "interpolateEnvBlock (Interpolate c) envMap (initialEnv c p) = (Some err, e')"
  then show "Parse c p = ((None, Some (errPrefix p @ '': '' @ formatYAMLError err)), e')"
    by (simp add: Parse_def decodePipeline_def parseWithEnv_def)
qed simp

theorem interpolateEnvBlock_sequential_witness:
  "snd (interpolateEnvBlock exampleEvaluator
          [(GoString ''K1'', GoString ''a''), (GoString ''K2'', GoString ''${K1}'')] Map.empty) ''K2''
     = Some ''a''
   \<and> exampleEvaluator Map.empty ''${K1}'' = Inr []
   \<and> interpolateEnvBlock exampleEvaluator [(GoString ''K1'', GoInt 7)] Map.empty = (None, Map.empty)
   \<and> fst (interpolateEnvBlock exampleEvaluator [(GoInt 7, GoString ''a'')] Map.empty)
     = Some ''Unexpected type of int for env block key 7''
   \<and> fst (Parse (exampleCollaborators (Inl ''yaml: cannot unmarshal'')
                   (Inr [(GoString ''env'', MapSlice [(GoInt 7, GoString ''a'')])]))
              \<lparr>Env = Some Map.empty, Filename = [], Pipeline = ''env: {7: a}'',
               NoInterpolation = False\<rparr>)
     = (None, Some ''Failed to parse pipeline: Unexpected type of int for env block key 7'')"
proof -
  have h1: "exampleEvaluator Map.empty ''a'' = Inr ''a''"
    by (simp add: exampleEvaluator_def)
  have h2: "exampleEvaluator (Env_Set ''K1'' ''a'' Map.empty) ''${K1}'' = Inr ''a''"
    by (simp add: exampleEvaluator_def Env_Set_def)
  have h3: "\<forall>s. GoInt 7 \<noteq> GoString s" by simp
  have h4: "\<not> NoInterpolation \<lparr>Env = Some Map.empty, Filename = [], Pipeline = ''env: {7: a}'',
               NoInterpolation = False\<rparr>" by simp
  have h5: "interpolateEnvBlock exampleEvaluator [(GoInt 7, GoString ''a'')] Map.empty
      = (Some ''Unexpected type of int for env block key 7'', Map.empty)"
    by (simp add: show_int_def digits.simps digit_def)
  show ?thesis
    using h1 h2 h3 h4 h5
      interpolateEnvBlock_sequential [where I = exampleEvaluator and e = Map.empty
        and ?v1.0 = "''a''" and ?w1.0 = "''a''" and ?k1.0 = "''K1''" and ?v2.0 = "''${K1}''"
        and ?w2.0 = "''a''" and ?k2.0 = "''K2''" and ?es1.0 = "[]" and ?es2.0 = "[]"
        and v = "GoInt 7" and k = "''K1''" and es = "[]" and key = "GoInt 7"
        and p = "\<lparr>Env = Some Map.empty, Filename = [], Pipeline = ''env: {7: a}'',
               NoInterpolation = False\<rparr>"
        and c = "exampleCollaborators (Inl ''yaml: cannot unmarshal'')
                   (Inr [(GoString ''env'', MapSlice [(GoInt 7, GoString ''a'')])])"
        and ?err1.0 = "''yaml: cannot unmarshal''"
        and pipeline = "[(GoString ''env'', MapSlice [(GoInt 7, GoString ''a'')])]"
        and envKey = "GoString ''env''" and envMap = "[(GoInt 7, GoString ''a'')]"
        and err = "''Unexpected type of int for env block key 7''" and e' = Map.empty]
    by (simp add: exampleEvaluator_def Env_Set_def exampleCollaborators_def initialEnv_def
        errPrefix_def formatYAMLError_def TrimPrefix_def show_int_def digits.simps digit_def)
qed


text \<open>
  Claim C10. When a string key occurs more than once in an env block, every occurrence
  is processed in declaration order, each against the environment as it is by then, and
  \<open>Set\<close> is called for each: after the block the environment holds, for that key, the
  interpolated value of its last string-valued occurrence.
\<close>

theorem interpolateEnvBlock_last_occurrence:
  assumes "interpolateEnvBlock I (es1 @ (GoString k, GoString tv) # es2) e = (None, e')"
    and "\<forall>tv'. (GoString k, GoString tv') \<notin> set es2"
  shows "\<exists>e1 w. interpolateEnvBlock I es1 e = (None, e1) \<and> I e1 tv = Inr w \<and> e' k = Some w"
proof -
  obtain r1 e1 where r1: "interpolateEnvBlock I es1 e = (r1, e1)"
    by (cases "interpolateEnvBlock I es1 e")
  have run: "interpolateEnvBlock I ((GoString k, GoString tv) # es2) e1 = (None, e')"
    and none: "r1 = None"
    using assms(1) r1 by (auto simp: interpolateEnvBlock_append split: option.splits)
  then obtain w where w: "I e1 tv = Inr w"
    and rest: "interpolateEnvBlock I es2 (Env_Set k w e1) = (None, e')"
    by (auto split: sum.splits)
  have "e' k = (Env_Set k w e1) k"
    by (rule interpolateEnvBlock_untouched [OF assms(2) rest])
  then have "e' k = Some w" by (simp add: Env_Set_def)
  then show ?thesis using r1 none w by blast
qed

theorem interpolateEnvBlock_last_occurrence_witness:
  "interpolateEnvBlock exampleEvaluator
     ([(GoString ''A'', GoString ''1''), (GoString ''B'', GoString ''${A}'')]
        @ (GoString ''A'', GoString ''2'') # [(GoString ''C'', GoString ''${A}'')]) Map.empty
     = (None, Env_Set ''C'' ''2'' (Env_Set ''A'' ''2'' (Env_Set ''B'' ''1''
          (Env_Set ''A'' ''1'' Map.empty))))
   \<and> (Env_Set ''C'' ''2'' (Env_Set ''A'' ''2'' (Env_Set ''B'' ''1''
          (Env_Set ''A'' ''1'' Map.empty)))) ''A'' = Some ''2''
   \<and> (Env_Set ''C'' ''2'' (Env_Set ''A'' ''2'' (Env_Set ''B'' ''1''
          (Env_Set ''A'' ''1'' Map.empty)))) ''B'' = Some ''1''"
proof -
  have run: "interpolateEnvBlock exampleEvaluator
     ([(GoString ''A'', GoString ''1''), (GoString ''B'', GoString ''${A}'')]
        @ (GoString ''A'', GoString ''2'') # [(GoString ''C'', GoString ''${A}'')]) Map.empty
     = (None, Env_Set ''C'' ''2'' (Env_Set ''A'' ''2'' (Env_Set ''B'' ''1''
          (Env_Set ''A'' ''1'' Map.empty))))"
    by (simp add: exampleEvaluator_def Env_Set_def)
  have last: "\<forall>tv'. (GoString ''A'', GoString tv') \<notin> set [(GoString ''C'', GoString ''${A}'')]"
    by simp
  show ?thesis
    using run interpolateEnvBlock_last_occurrence [OF run last]
    by (auto simp: exampleEvaluator_def Env_Set_def)
qed



text \<open>
  Claim C9. \<open>Parse\<close> does not undo what the env block has set: when the block has been
  processed and \<open>Parse\<close> then fails, in the walk, in \<open>yaml.Marshal\<close> or in the final
  decoding, the environment is left as the block made it.
\<close>

theorem Parse_env_not_rolled_back:
  assumes "\<not> NoInterpolation p"
    and "yaml_Unmarshal_slice c (Pipeline p) = Inl err1"
    and "yaml_Unmarshal_MapSlice c (Pipeline p) = Inr pipeline"
    and "mapSliceItem ''env'' pipeline = Some (key, MapSlice envMap)"
    and "interpolateEnvBlock (Interpolate c) envMap (initialEnv c p) = (None, e1)"
    and "snd (fst (Parse c p)) \<noteq> None"
  shows "snd (Parse c p) = e1 \<and> fst (fst (Parse c p)) = None"
  using assms
  by (auto simp: Parse_def decodePipeline_def parseWithEnv_def interpolateAndNormalize_def
      split: sum.splits)

theorem Parse_env_not_rolled_back_witness:
  "snd (Parse (exampleCollaborators (Inl ''yaml: cannot unmarshal'')
                 (Inr [(GoString ''env'', MapSlice [(GoString ''A'', GoString ''x'')]),
                       (GoString ''steps'', Slice [GoString ''${UNSET?}''])]))
          \<lparr>Env = Some Map.empty, Filename = [], Pipeline = ''env: {A: x}'' @ newline @ ''steps:'' @ newline @ ''- ${UNSET?}'',
           NoInterpolation = False\<rparr>) ''A'' = Some ''x''
   \<and> fst (Parse (exampleCollaborators (Inl ''yaml: cannot unmarshal'')
                 (Inr [(GoString ''env'', MapSlice [(GoString ''A'', GoString ''x'')]),
                       (GoString ''steps'', Slice [GoString ''${UNSET?}''])]))
          \<lparr>Env = Some Map.empty, Filename = [], Pipeline = ''env: {A: x}'' @ newline @ ''steps:'' @ newline @ ''- ${UNSET?}'',
           NoInterpolation = False\<rparr>) = (None, Some ''$UNSET: not set'')
   \<and> initialEnv (exampleCollaborators (Inl ''yaml: cannot unmarshal'')
                 (Inr [(GoString ''env'', MapSlice [(GoString ''A'', GoString ''x'')]),
                       (GoString ''steps'', Slice [GoString ''${UNSET?}''])]))
          \<lparr>Env = Some Map.empty, Filename = [], Pipeline = ''env: {A: x}'' @ newline @ ''steps:'' @ newline @ ''- ${UNSET?}'',
           NoInterpolation = False\<rparr> ''A'' = None"
proof -
  let ?c = "exampleCollaborators (Inl ''yaml: cannot unmarshal'')
                 (Inr [(GoString ''env'', MapSlice [(GoString ''A'', GoString ''x'')]),
                       (GoString ''steps'', Slice [GoString ''${UNSET?}''])])"
  let ?p = "\<lparr>Env = Some Map.empty, Filename = [], Pipeline = ''env: {A: x}'' @ newline @ ''steps:'' @ newline @ ''- ${UNSET?}'',
           NoInterpolation = False\<rparr>"
  have h1: "\<not> NoInterpolation ?p" by simp
  have h2: "yaml_Unmarshal_slice ?c (Pipeline ?p) = Inl ''yaml: cannot unmarshal''"
    by (simp add: exampleCollaborators_def)
  have h3: "yaml_Unmarshal_MapSlice ?c (Pipeline ?p)
      = Inr [(GoString ''env'', MapSlice [(GoString ''A'', GoString ''x'')]),
             (GoString ''steps'', Slice [GoString ''${UNSET?}''])]"
    by (simp add: exampleCollaborators_def)
  have h4: "mapSliceItem ''env'' [(GoString ''env'', MapSlice [(GoString ''A'', GoString ''x'')]),
             (GoString ''steps'', Slice [GoString ''${UNSET?}''])]
      = Some (GoString ''env'', MapSlice [(GoString ''A'', GoString ''x'')])"
    by simp
  have h5: "interpolateEnvBlock (Interpolate ?c) [(GoString ''A'', GoString ''x'')] (initialEnv ?c ?p)
      = (None, Env_Set ''A'' ''x'' Map.empty)"
    by (simp add: exampleCollaborators_def exampleEvaluator_def initialEnv_def)
  have h6: "fst (Parse ?c ?p) = (None, Some ''$UNSET: not set'')"
    by (simp add: Parse_def decodePipeline_def parseWithEnv_def interpolateAndNormalize_def
        interpolate_def exampleCollaborators_def exampleEvaluator_def initialEnv_def Env_Set_def)
  have h7: "snd (fst (Parse ?c ?p)) \<noteq> None" using h6 by simp
  show ?thesis
    using h6 Parse_env_not_rolled_back [OF h1 h2 h3 h4 h5 h7]
    by (simp add: Env_Set_def initialEnv_def)
qed


text \<open>
  Claim C3. A top-level \<open>env\<close> entry whose value is not an ordered map fails the parse
  with a message that should name the type found. The message formats the whole
  \<open>yaml.MapItem\<close>, not its value: for the string value \<open>not-a-map\<close> it ends in
  \<open>yaml.MapItem\<close>, where the type of the value is \<open>string\<close>.
\<close>

theorem Parse_env_shape_error_names_MapItem:
  "fst (Parse (exampleCollaborators (Inl ''yaml: cannot unmarshal'')
                 (Inr [(GoString ''env'', GoString ''not-a-map'')]))
          \<lparr>Env = Some Map.empty, Filename = [], Pipeline = ''env: not-a-map'',
           NoInterpolation = False\<rparr>)
     = (None, Some (''Failed to parse pipeline: ''
          @ ''Expected pipeline top-level env block to be a map, got yaml.MapItem''))
   \<and> fmt_T (GoString ''not-a-map'') = ''string''"
  by (simp add: Parse_def decodePipeline_def parseWithEnv_def exampleCollaborators_def
      initialEnv_def errPrefix_def formatYAMLError_def TrimPrefix_def)


lemma mapSliceItem_found:
  "\<forall>v'. (GoString key, v') \<notin> set before \<Longrightarrow>
     mapSliceItem key (before @ (GoString key, v) # rest) = Some (GoString key, v)"
proof (induction before)
  case Nil
  then show ?case by simp
next
  case (Cons item before)
  obtain k w where item: "item = (k, w)" by (cases item)
  have "k \<noteq> GoString key" using Cons.prems item by auto
  moreover have "mapSliceItem key (before @ (GoString key, v) # rest) = Some (GoString key, v)"
    using Cons.IH Cons.prems by simp
  ultimately show ?case using item by (cases k) simp_all
qed

lemma mapSliceItem_absent:
  "\<forall>v'. (GoString key, v') \<notin> set m \<Longrightarrow> mapSliceItem key m = None"
proof (induction m)
  case Nil
  then show ?case by simp
next
  case (Cons item m)
  obtain k w where item: "item = (k, w)" by (cases item)
  have "k \<noteq> GoString key" using Cons.prems item by auto
  moreover have "mapSliceItem key m = None" using Cons.IH Cons.prems by simp
  ultimately show ?case using item by (cases k) simp_all
qed

text \<open>
  Claim C7. With interpolation on, \<open>Parse\<close> first decodes the document as a sequence; if
  that succeeds the walk starts from the sequence and the environment it was given, with
  no env block processing. Only if it fails is the document decoded as an ordered map:
  then the first entry whose key is the string \<open>env\<close>, if there is one, is run through
  \<open>interpolateEnvBlock\<close> and the walk starts from the map and the environment the
  block has left. If the map decoding fails too, \<open>Parse\<close> fails with the decoder's
  message after the prefix, a leading \<open>yaml: \<close> removed.
\<close>

theorem Parse_shape_detection:
  assumes "\<not> NoInterpolation p"
  shows "Parse c p =
           (case yaml_Unmarshal_slice c (Pipeline p) of
              Inr xs \<Rightarrow> interpolateAndNormalize c p (Slice xs) (initialEnv c p)
            | Inl err1 \<Rightarrow>
                (case yaml_Unmarshal_MapSlice c (Pipeline p) of
                   Inl err2 \<Rightarrow>
                     ((None, Some (errPrefix p @ '': '' @ TrimPrefix err2 ''yaml: '')),
                      initialEnv c p)
                 | Inr m \<Rightarrow>
                     (case mapSliceItem ''env'' m of
                        None \<Rightarrow> interpolateAndNormalize c p (MapSlice m) (initialEnv c p)
                      | Some item \<Rightarrow>
                          (case snd item of
                             MapSlice envMap \<Rightarrow>
                               (case interpolateEnvBlock (Interpolate c) envMap (initialEnv c p) of
                                  (Some err, e) \<Rightarrow>
                                    ((None, Some (errPrefix p @ '': '' @ formatYAMLError err)), e)
                                | (None, e) \<Rightarrow> interpolateAndNormalize c p (MapSlice m) e)
                           | _ \<Rightarrow>
                               ((None, Some (errPrefix p @ '': ''
                                   @ ''Expected pipeline top-level env block to be a map, got ''
                                   @ ''yaml.MapItem'')), initialEnv c p)))))
         \<and> snd (interpolateAndNormalize c p t e0) = e0
         \<and> TrimPrefix (''yaml: '' @ msg) ''yaml: '' = msg
         \<and> ((\<forall>v'. (GoString key, v') \<notin> set before) \<longrightarrow>
              mapSliceItem key (before @ (GoString key, v) # rest) = Some (GoString key, v))
         \<and> ((\<forall>v'. (GoString key, v') \<notin> set absent) \<longrightarrow> mapSliceItem key absent = None)"
proof (intro conjI impI)
  show "Parse c p =
           (case yaml_Unmarshal_slice c (Pipeline p) of
              Inr xs \<Rightarrow> interpolateAndNormalize c p (Slice xs) (initialEnv c p)
            | Inl err1 \<Rightarrow>
                (case yaml_Unmarshal_MapSlice c (Pipeline p) of
                   Inl err2 \<Rightarrow>
                     ((None, Some (errPrefix p @ '': '' @ TrimPrefix err2 ''yaml: '')),
                      initialEnv c p)
                 | Inr m \<Rightarrow>
                     (case mapSliceItem ''env'' m of
                        None \<Rightarrow> interpolateAndNormalize c p (MapSlice m) (initialEnv c p)
                      | Some item \<Rightarrow>
                          (case snd item of
                             MapSlice envMap \<Rightarrow>
                               (case interpolateEnvBlock (Interpolate c) envMap (initialEnv c p) of
                                  (Some err, e) \<Rightarrow>
                                    ((None, Some (errPrefix p @ '': '' @ formatYAMLError err)), e)
                                | (None, e) \<Rightarrow> interpolateAndNormalize c p (MapSlice m) e)
                           | _ \<Rightarrow>
                               ((None, Some (errPrefix p @ '': ''
                                   @ ''Expected pipeline top-level env block to be a map, got ''
                                   @ ''yaml.MapItem'')), initialEnv c p)))))"
    using assms
    by (simp add: Parse_def decodePipeline_def parseWithEnv_def formatYAMLError_def
        TrimPrefix_def split: sum.splits option.splits node.splits prod.splits)
next
  show "snd (interpolateAndNormalize c p t e0) = e0"
    by (simp add: interpolateAndNormalize_def split: sum.splits)
next
  show "TrimPrefix (''yaml: '' @ msg) ''yaml: '' = msg"
    by (simp add: TrimPrefix_def)
next
  assume "\<forall>v'. (GoString key, v') \<notin> set before"
  then show "mapSliceItem key (before @ (GoString key, v) # rest) = Some (GoString key, v)"
    by (rule mapSliceItem_found)
next
  assume "\<forall>v'. (GoString key, v') \<notin> set absent"
  then show "mapSliceItem key absent = None"
    by (rule mapSliceItem_absent)
qed

theorem Parse_shape_detection_witness:
  "Parse (exampleCollaborators (Inl ''yaml: line 1: did not find expected node content'')
            (Inl ''yaml: line 1: did not find expected node content''))
      \<lparr>Env = Some Map.empty, Filename = ''steps.yml'', Pipeline = ''{'',
       NoInterpolation = False\<rparr>
     = ((None, Some ''Failed to parse steps.yml: line 1: did not find expected node content''),
        Map.empty)
   \<and> fst (Parse (exampleCollaborators
            (Inr [GoMap KeyInterface [(GoString ''command'', GoString ''${CMD}'')]])
            (Inr [(GoString ''env'', MapSlice [(GoString ''CMD'', GoString ''never'')])]))
      \<lparr>Env = Some [''CMD'' \<mapsto> ''make''], Filename = ''steps.yml'',
       Pipeline = ''- command: ${CMD}'', NoInterpolation = False\<rparr>)
     = (Some ''[map[command:make]]'', None)
   \<and> fst (Parse (exampleCollaborators (Inl ''yaml: cannot unmarshal'')
            (Inr [(GoString ''steps'', Slice [GoString ''${CMD}'']),
                  (GoString ''env'', MapSlice [(GoString ''CMD'', GoString ''make'')])]))
      \<lparr>Env = Some Map.empty, Filename = ''steps.yml'',
       Pipeline = ''steps:'' @ newline @ ''- ${CMD}'' @ newline @ ''env: {CMD: make}'',
       NoInterpolation = False\<rparr>)
     = (Some ''[{steps [make]} {env [{CMD make}]}]'', None)
   \<and> snd (Parse (exampleCollaborators (Inl ''yaml: cannot unmarshal'')
            (Inr [(GoString ''steps'', Slice [GoString ''${CMD}'']),
                  (GoString ''env'', MapSlice [(GoString ''CMD'', GoString ''make'')])]))
      \<lparr>Env = Some Map.empty, Filename = ''steps.yml'',
       Pipeline = ''steps:'' @ newline @ ''- ${CMD}'' @ newline @ ''env: {CMD: make}'',
       NoInterpolation = False\<rparr>) ''CMD'' = Some ''make''
   \<and> mapSliceItem ''env''
        ([(GoString ''steps'', Slice [GoString ''${CMD}''])]
           @ (GoString ''env'', MapSlice [(GoString ''CMD'', GoString ''make'')]) # [])
     = Some (GoString ''env'', MapSlice [(GoString ''CMD'', GoString ''make'')])
   \<and> mapSliceItem ''env'' [(GoString ''steps'', Slice [GoString ''${CMD}''])] = None"
proof -
  have h: "\<not> NoInterpolation \<lparr>Env = Some Map.empty, Filename = ''steps.yml'', Pipeline = ''{'',
       NoInterpolation = False\<rparr>"
    by simp
  have h': "\<not> NoInterpolation \<lparr>Env = Some [''CMD'' \<mapsto> ''make''], Filename = ''steps.yml'',
       Pipeline = ''- command: ${CMD}'', NoInterpolation = False\<rparr>"
    by simp
  have h'': "\<not> NoInterpolation \<lparr>Env = Some Map.empty, Filename = ''steps.yml'',
       Pipeline = ''steps:'' @ newline @ ''- ${CMD}'' @ newline @ ''env: {CMD: make}'',
       NoInterpolation = False\<rparr>"
    by simp
  have absent: "\<forall>v'. (GoString ''env'', v') \<notin> set [(GoString ''steps'', Slice [GoString ''${CMD}''])]"
    by simp
  show ?thesis
    using absent
      Parse_shape_detection [OF h,
        where c = "exampleCollaborators (Inl ''yaml: line 1: did not find expected node content'')
            (Inl ''yaml: line 1: did not find expected node content'')"]
      Parse_shape_detection [OF h',
        where c = "exampleCollaborators
            (Inr [GoMap KeyInterface [(GoString ''command'', GoString ''${CMD}'')]])
            (Inr [(GoString ''env'', MapSlice [(GoString ''CMD'', GoString ''never'')])])"]
      Parse_shape_detection [OF h'',
        where c = "exampleCollaborators (Inl ''yaml: cannot unmarshal'')
            (Inr [(GoString ''steps'', Slice [GoString ''${CMD}'']),
                  (GoString ''env'', MapSlice [(GoString ''CMD'', GoString ''make'')])])"
          and key = "''env''" and before = "[(GoString ''steps'', Slice [GoString ''${CMD}''])]"
          and v = "MapSlice [(GoString ''CMD'', GoString ''make'')]" and rest = "[]"
          and absent = "[(GoString ''steps'', Slice [GoString ''${CMD}''])]"]
    by (simp add: exampleCollaborators_def initialEnv_def errPrefix_def TrimPrefix_def
        interpolateAndNormalize_def interpolate_def exampleEvaluator_def Env_Set_def)
qed


text \<open>
  Claim C6, as amended. With \<open>NoInterpolation\<close> set, \<open>Parse\<close> skips the env block and
  the walk and only normalizes: its result and its error are those of the final decoder
  on the raw document, whatever the environment, the evaluator and the other decoders
  are, so nothing is substituted for a \<open>${...}\<close>, and the environment is left as it
  was. What the final decoder itself drops from the document is not in the result.
\<close>

theorem Parse_NoInterpolation:
  assumes "NoInterpolation p"
  shows "Parse c p =
           (case UnmarshalAsStringMap c (Pipeline p) of
              Inl err \<Rightarrow>
                ((None, Some (errPrefix p @ '': '' @ formatYAMLError err)), initialEnv c p)
            | Inr result \<Rightarrow> ((result, None), initialEnv c p))
         \<and> snd (Parse c p) = initialEnv c p
         \<and> fst (Parse (c\<lparr>Interpolate := I', yaml_Unmarshal_slice := d1,
                          yaml_Unmarshal_MapSlice := d2, yaml_Marshal := m,
                          os_Environ := oe\<rparr>) (p\<lparr>Env := E\<rparr>))
             = fst (Parse c p)"
  using assms
  by (auto simp: Parse_def errPrefix_def split: sum.splits)

theorem Parse_NoInterpolation_witness:
  "Parse ((exampleCollaborators (Inr [GoString ''${FOO}'']) (Inl ''yaml: cannot unmarshal''))
            \<lparr>UnmarshalAsStringMap := (\<lambda>b. Inr (Some ''[${FOO}]''))\<rparr>)
      \<lparr>Env = Some [''FOO'' \<mapsto> ''bar''], Filename = [], Pipeline = ''- ${FOO}'',
       NoInterpolation = True\<rparr>
     = ((Some ''[${FOO}]'', None), [''FOO'' \<mapsto> ''bar''])
   \<and> contains ''[${FOO}]'' ''${FOO}''"
proof -
  have h: "NoInterpolation \<lparr>Env = Some [''FOO'' \<mapsto> ''bar''], Filename = [],
       Pipeline = ''- ${FOO}'', NoInterpolation = True\<rparr>"
    by simp
  show ?thesis
    using Parse_NoInterpolation [OF h,
        where c = "(exampleCollaborators (Inr [GoString ''${FOO}''])
                      (Inl ''yaml: cannot unmarshal''))
                    \<lparr>UnmarshalAsStringMap := (\<lambda>b. Inr (Some ''[${FOO}]''))\<rparr>"]
    by (simp add: exampleCollaborators_def initialEnv_def)
qed

text \<open>
  The claim as first stated has every \<open>${...}\<close> of the document in the result. One in
  a comment is not: the decoder drops the comment of \<open>- a # ${FOO}\<close> and returns the
  one-element sequence.
\<close>

theorem Parse_NoInterpolation_comment_counterexample:
  "fst (Parse ((exampleCollaborators (Inr [GoString ''a'']) (Inl ''yaml: cannot unmarshal''))
                 \<lparr>UnmarshalAsStringMap := (\<lambda>b. Inr (Some ''[a]''))\<rparr>)
          \<lparr>Env = Some Map.empty, Filename = [], Pipeline = ''- a # ${FOO}'',
           NoInterpolation = True\<rparr>)
     = (Some ''[a]'', None)
   \<and> contains ''- a # ${FOO}'' ''${FOO}''
   \<and> \<not> contains ''[a]'' ''${FOO}''"
  by (simp add: Parse_def exampleCollaborators_def)

text \<open>
  Claim C4. Every error \<open>Parse\<close> returns should start with the prefix that names the
  file. An error of the walk is returned as it is, without the prefix: for the document
  \<open>- ${UNSET?}\<close> the error is the evaluator's. The same error raised in the env block
  comes back with the prefix.
\<close>

theorem Parse_walk_error_has_no_prefix:
  "fst (Parse (exampleCollaborators (Inr [GoString ''${UNSET?}''])
                 (Inl ''yaml: cannot unmarshal''))
          \<lparr>Env = Some Map.empty, Filename = ''pipeline.yml'', Pipeline = ''- ${UNSET?}'',
           NoInterpolation = False\<rparr>)
     = (None, Some ''$UNSET: not set'')
   \<and> errPrefix \<lparr>Env = Some Map.empty, Filename = ''pipeline.yml'', Pipeline = ''- ${UNSET?}'',
           NoInterpolation = False\<rparr> = ''Failed to parse pipeline.yml''
   \<and> fst (Parse (exampleCollaborators (Inl ''yaml: cannot unmarshal'')
                 (Inr [(GoString ''env'', MapSlice [(GoString ''A'', GoString ''${UNSET?}'')])]))
          \<lparr>Env = Some Map.empty, Filename = ''pipeline.yml'',
           Pipeline = ''env:'' @ newline @ ''  A: ${UNSET?}'', NoInterpolation = False\<rparr>)
     = (None, Some ''Failed to parse pipeline.yml: $UNSET: not set'')"
  by (simp add: Parse_def decodePipeline_def parseWithEnv_def interpolateAndNormalize_def
      interpolate_def exampleCollaborators_def exampleEvaluator_def initialEnv_def errPrefix_def
      formatYAMLError_def TrimPrefix_def)

text \<open>
  Claim C5. When a key of a mapping is a string, the walk should interpolate the key as
  well as the value. It does in a document decoded as an ordered map, where the keys are
  fields of \<open>yaml.MapItem\<close>s. It does not in a document decoded as a sequence: there
  the mappings are \<open>map[interface{}]interface{}\<close> values, the \<open>Kind\<close> of their keys
  is \<open>Interface\<close>, and the test for \<open>String\<close> before the key is interpolated never
  holds. With \<open>KEYVAR\<close> set to \<open>name\<close>, the key of \<open>- ${KEYVAR}: value\<close> stays as
  it is and the key of \<open>${KEYVAR}: value\<close> becomes \<open>name\<close>.
\<close>

theorem Parse_sequence_document_keeps_map_key:
  "fst (Parse (exampleCollaborators
                 (Inr [GoMap KeyInterface [(GoString ''${KEYVAR}'', GoString ''value'')]])
                 (Inl ''yaml: cannot unmarshal''))
          \<lparr>Env = Some [''KEYVAR'' \<mapsto> ''name''], Filename = [],
           Pipeline = ''- ${KEYVAR}: value'', NoInterpolation = False\<rparr>)
     = (Some ''[map[${KEYVAR}:value]]'', None)
   \<and> fst (Parse (exampleCollaborators (Inl ''yaml: cannot unmarshal'')
                 (Inr [(GoString ''${KEYVAR}'', GoString ''value'')]))
          \<lparr>Env = Some [''KEYVAR'' \<mapsto> ''name''], Filename = [],
           Pipeline = ''${KEYVAR}: value'', NoInterpolation = False\<rparr>)
     = (Some ''[{name value}]'', None)"
  by (simp add: Parse_def decodePipeline_def parseWithEnv_def interpolateAndNormalize_def
      interpolate_def exampleCollaborators_def exampleEvaluator_def initialEnv_def)

end
